theory Spec2Isabelle
  imports Main
begin

section \<open>Data model of wrapspawner.py\<close>

text \<open>
  The module wraps a JupyterHub \<open>Spawner\<close>: a \<open>WrapSpawner\<close> holds the class and the
  configuration of a child spawner, builds the child lazily and proxies the lifecycle
  calls to it. \<open>ProfilesSpawner\<close> chooses class and configuration from a list of profiles,
  \<open>DropDownOptionsSpawner\<close> fills the configuration from separate form fields.

  Python values that occur in configuration and state dictionaries are \<open>pyval\<close>; a
  dictionary with string keys is a map. A Spawner class (a value of the \<open>Type(Spawner)\<close>
  trait) is identified by its name.
\<close>

datatype pyval = PNone | PInt int | PStr string

type_synonym pydict = "string \<rightharpoonup> pyval"

type_synonym cls = string

text \<open>
  Exceptions raised by the module's own expressions and statements; \<open>ChildError\<close> stands
  for an exception raised inside a method of the child.
\<close>

datatype error =
    IndexError
  | TypeError
  | TraitError string "string set"
  | NameError string
  | AttributeError
  | ChildError string

text \<open>
  A tornado \<open>Future\<close>: pending, or completed with a result.
  \<open>_yield_val\<close> creates a future and completes it at once with \<open>x\<close> (\<open>None\<close> by default).
\<close>

datatype future = Pending | Resolved pyval

definition set_result :: "pyval \<Rightarrow> future \<Rightarrow> future" where
  "set_result x f = Resolved x"

definition yield_val :: "pyval \<Rightarrow> future" where
  "yield_val x = set_result x Pending"

text \<open>
  The child spawner is an object of a class outside this module. The model keeps the
  class it was instantiated from, the keyword overrides \<open>**child_config\<close> it was
  instantiated with, the traits linked to it by \<open>directional_link\<close>, and the backend's own
  state \<open>cinner\<close>, on which the backend's methods work.
\<close>

record 'c child =
  ccls :: cls
  ckwargs :: pydict
  clinked :: "string set"
  cinner :: 'c

text \<open>
  The methods of the backend classes are parameters of the model: the constructor, the
  three state methods, the trait names of a class, and the three lifecycle methods, which
  return a future or raise the backend's own error (\<open>Inl\<close>) and leave the child in a new
  state either way.
\<close>

record 'c backend =
  b_init :: "cls \<Rightarrow> pydict \<Rightarrow> 'c"
  b_clear_state :: "cls \<Rightarrow> 'c \<Rightarrow> 'c"
  b_load_state :: "cls \<Rightarrow> 'c \<Rightarrow> pydict \<Rightarrow> 'c"
  b_get_state :: "cls \<Rightarrow> 'c \<Rightarrow> pydict"
  b_trait_names :: "cls \<Rightarrow> string set"
  b_start :: "cls \<Rightarrow> 'c \<Rightarrow> (error + future) \<times> 'c"
  b_stop :: "cls \<Rightarrow> 'c \<Rightarrow> bool \<Rightarrow> (error + future) \<times> 'c"
  b_poll :: "cls \<Rightarrow> 'c \<Rightarrow> (error + future) \<times> 'c"

text \<open>
  The persisted state handed to \<open>load_state\<close> and returned by \<open>get_state\<close> is a dictionary
  read and written at the keys \<open>child_conf\<close>, \<open>child_state\<close> and \<open>profile\<close>; a key that is
  absent is \<open>None\<close>. The base class \<open>Spawner\<close> contributes no key of its own.
\<close>

record pstate =
  st_child_conf :: "pydict option"
  st_child_state :: "pydict option"
  st_profile :: "string option"

definition empty_pstate :: pstate where
  "empty_pstate = \<lparr>st_child_conf = None, st_child_state = None, st_profile = None\<rparr>"

text \<open>\<open>d.get(k, dflt)\<close> on a dictionary.\<close>

definition dict_get :: "('k \<rightharpoonup> 'v) \<Rightarrow> 'k \<Rightarrow> 'v \<Rightarrow> 'v" where
  "dict_get d k dflt = (case d k of None \<Rightarrow> dflt | Some v \<Rightarrow> v)"

text \<open>
  The fields of a \<open>WrapSpawner\<close>: the traits \<open>child_class\<close>, \<open>child_config\<close>,
  \<open>child_state\<close> and \<open>child_spawner\<close>, the inherited \<open>user_options\<close>, and the names of the
  wrapper's own traits (\<open>self.trait_names()\<close>).

  A field holds the value of its dictionary. In Python \<open>self.child_config = p[3]\<close> makes
  \<open>child_config\<close> the very dictionary of the profile, so that a later
  \<open>self.child_config.update(...)\<close> also changes the entry of the profile list; this sharing
  is not represented, and the properties below are about the values of \<open>child_class\<close>,
  \<open>child_config\<close>, \<open>child_state\<close> and about the child, which do not depend on it.
  The constructor of a backend class is taken to return an instance.
\<close>

record 'c wrapper =
  child_class :: cls
  child_config :: pydict
  child_state :: pydict
  child_spawner :: "'c child option"
  user_options :: "string \<rightharpoonup> string"
  trait_names :: "string set"

definition LocalProcessSpawner :: cls where
  "LocalProcessSpawner = ''LocalProcessSpawner''"

section \<open>WrapSpawner\<close>

text \<open>
  \<open>construct_child\<close>: when there is no child, instantiate \<open>child_class\<close> with
  \<open>**child_config\<close>, clear the new child's state, load \<open>child_state\<close> into it when that
  dictionary is not empty, and link the traits common to wrapper and child that
  \<open>child_config\<close> does not set. With a child in place nothing happens.
\<close>

definition new_child :: "'c backend \<Rightarrow> cls \<Rightarrow> pydict \<Rightarrow> pydict \<Rightarrow> string set \<Rightarrow> 'c child" where
  "new_child b k conf cstate own =
     (let c0 = b_init b k conf;
          c1 = b_clear_state b k c0;
          c2 = (if cstate \<noteq> Map.empty then b_load_state b k c1 cstate else c1);
          common_traits = own \<inter> (b_trait_names b k - dom conf)
      in \<lparr>ccls = k, ckwargs = conf, clinked = common_traits, cinner = c2\<rparr>)"

definition W_construct_child ::
  "'c backend \<Rightarrow> ('c, 'z) wrapper_scheme \<Rightarrow> ('c, 'z) wrapper_scheme" where
  "W_construct_child b s =
     (case child_spawner s of
        None \<Rightarrow> s\<lparr>child_spawner :=
                   Some (new_child b (child_class s) (child_config s) (child_state s) (trait_names s))\<rparr>
      | Some c \<Rightarrow> s)"

text \<open>\<open>load_child_class\<close> of the base class does nothing.\<close>

definition W_load_child_class ::
  "pstate \<Rightarrow> ('c, 'z) wrapper_scheme \<Rightarrow> ('c, 'z) wrapper_scheme" where
  "W_load_child_class st s = s"

text \<open>
  \<open>load_state\<close> calls \<open>self.load_child_class\<close> and \<open>self.construct_child\<close>, which a subclass
  overrides: the two methods are arguments of \<open>load_state\<close>, and each class passes its own.
  In between, \<open>child_config\<close> is updated with the persisted \<open>child_conf\<close> and \<open>child_state\<close>
  is replaced by the persisted \<open>child_state\<close> (an empty dictionary for a missing key).
\<close>

definition load_state ::
  "(pstate \<Rightarrow> ('c, 'z) wrapper_scheme \<Rightarrow> ('c, 'z) wrapper_scheme) \<Rightarrow>
   (('c, 'z) wrapper_scheme \<Rightarrow> ('c, 'z) wrapper_scheme) \<Rightarrow>
   ('c, 'z) wrapper_scheme \<Rightarrow> pstate \<Rightarrow> ('c, 'z) wrapper_scheme" where
  "load_state load_child_class construct_child s st =
     (let s1 = load_child_class st s;
          s2 = s1\<lparr>child_config :=
                   child_config s1 ++ (case st_child_conf st of None \<Rightarrow> Map.empty | Some d \<Rightarrow> d)\<rparr>;
          s3 = s2\<lparr>child_state := (case st_child_state st of None \<Rightarrow> Map.empty | Some d \<Rightarrow> d)\<rparr>
      in construct_child s3)"

definition W_load_state ::
  "'c backend \<Rightarrow> ('c, 'z) wrapper_scheme \<Rightarrow> pstate \<Rightarrow> ('c, 'z) wrapper_scheme" where
  "W_load_state b s st = load_state W_load_child_class (W_construct_child b) s st"

text \<open>
  \<open>get_state\<close> returns the dictionary with \<open>child_conf\<close> and, only when a child exists, the
  child's own state under \<open>child_state\<close>, which is cached in the wrapper as well.
\<close>

definition W_get_state ::
  "'c backend \<Rightarrow> ('c, 'z) wrapper_scheme \<Rightarrow> pstate \<times> ('c, 'z) wrapper_scheme" where
  "W_get_state b s =
     (let state = empty_pstate\<lparr>st_child_conf := Some (child_config s)\<rparr>
      in case child_spawner s of
           Some c \<Rightarrow>
             (let cs = b_get_state b (ccls c) (cinner c)
              in (state\<lparr>st_child_state := Some cs\<rparr>, s\<lparr>child_state := cs\<rparr>))
         | None \<Rightarrow> (state, s))"

text \<open>
  \<open>clear_state\<close> first clears the child, when there is one
  (\<open>if self.child_spawner: self.child_spawner.clear_state()\<close>, the step \<open>clear_child\<close>),
  and then assigns three fields: \<open>child_state\<close>, \<open>child_config\<close> and \<open>child_spawner\<close>.

  The wrapper only drops its reference: the child object lives on (the trait links made by
  \<open>construct_child\<close> still point to it). The Python method returns \<open>None\<close>; the model
  returns the wrapper together with that object as the call leaves it, so that what the
  call did to the child stays visible.
\<close>

definition clear_child ::
  "'c backend \<Rightarrow> ('c, 'z) wrapper_scheme \<Rightarrow> ('c, 'z) wrapper_scheme" where
  "clear_child b s =
     (case child_spawner s of
        Some c \<Rightarrow> s\<lparr>child_spawner :=
                    Some (c\<lparr>cinner := b_clear_state b (ccls c) (cinner c)\<rparr>)\<rparr>
      | None \<Rightarrow> s)"

definition W_clear_state ::
  "'c backend \<Rightarrow> ('c, 'z) wrapper_scheme \<Rightarrow> 'c child option \<times> ('c, 'z) wrapper_scheme" where
  "W_clear_state b s =
     (let s1 = clear_child b s
      in (child_spawner s1,
          s1\<lparr>child_state := Map.empty, child_config := Map.empty, child_spawner := None\<rparr>))"

text \<open>
  The proxies. A call on the child returns what the child returns and leaves the child in
  the state the call produced. \<open>start\<close> constructs the child first when there is none
  (through \<open>self.construct_child\<close>, an argument here as in \<open>load_state\<close>).
\<close>

definition call_child ::
  "(cls \<Rightarrow> 'c \<Rightarrow> (error + future) \<times> 'c) \<Rightarrow> 'c child \<Rightarrow>
   ('c, 'z) wrapper_scheme \<Rightarrow> (error + future) \<times> ('c, 'z) wrapper_scheme" where
  "call_child m c s =
     (let (r, i) = m (ccls c) (cinner c)
      in (r, s\<lparr>child_spawner := Some (c\<lparr>cinner := i\<rparr>)\<rparr>))"

definition start ::
  "(('c, 'z) wrapper_scheme \<Rightarrow> ('c, 'z) wrapper_scheme) \<Rightarrow> 'c backend \<Rightarrow>
   ('c, 'z) wrapper_scheme \<Rightarrow> (error + future) \<times> ('c, 'z) wrapper_scheme" where
  "start construct_child b s =
     (let s1 = (if child_spawner s = None then construct_child s else s)
      in case child_spawner s1 of
           None \<Rightarrow> (Inl AttributeError, s1)
         | Some c \<Rightarrow> call_child (b_start b) c s1)"

definition W_start ::
  "'c backend \<Rightarrow> ('c, 'z) wrapper_scheme \<Rightarrow> (error + future) \<times> ('c, 'z) wrapper_scheme" where
  "W_start b s = start (W_construct_child b) b s"

definition stop ::
  "'c backend \<Rightarrow> ('c, 'z) wrapper_scheme \<Rightarrow> bool \<Rightarrow>
   (error + future) \<times> ('c, 'z) wrapper_scheme" where
  "stop b s now =
     (case child_spawner s of
        Some c \<Rightarrow> call_child (\<lambda>k i. b_stop b k i now) c s
      | None \<Rightarrow> (Inr (yield_val PNone), s))"

definition poll ::
  "'c backend \<Rightarrow> ('c, 'z) wrapper_scheme \<Rightarrow> (error + future) \<times> ('c, 'z) wrapper_scheme" where
  "poll b s =
     (case child_spawner s of
        Some c \<Rightarrow> call_child (b_poll b) c s
      | None \<Rightarrow> (Inr (yield_val (PInt 1)), s))"

section \<open>ProfilesSpawner\<close>

text \<open>A profile is the tuple (display name, key, Spawner class, config dictionary).\<close>

type_synonym profile = "string \<times> string \<times> cls \<times> pydict"

definition pdisplay :: "profile \<Rightarrow> string" where
  "pdisplay p = fst p"

definition pkey :: "profile \<Rightarrow> string" where
  "pkey p = fst (snd p)"

definition pclass :: "profile \<Rightarrow> cls" where
  "pclass p = fst (snd (snd p))"

definition pconfig :: "profile \<Rightarrow> pydict" where
  "pconfig p = snd (snd (snd p))"

record 'c profiles_spawner = "'c wrapper" +
  profiles :: "profile list"
  child_profile :: string

text \<open>
  \<open>_validate_profiles\<close>: the comprehension walks the list with the set \<open>seen\<close>; a key that
  is in \<open>seen\<close> already goes to \<open>duplicated\<close>, any other key is added to \<open>seen\<close>
  (\<open>seen.add\<close> returns \<open>None\<close>, so the key is not collected). The error carries the text
  of the message and the set formatted into it.
\<close>

fun duplicated_from :: "string set \<Rightarrow> profile list \<Rightarrow> string set" where
  "duplicated_from seen [] = {}"
| "duplicated_from seen (p # ps) =
     (if pkey p \<in> seen then insert (pkey p) (duplicated_from seen ps)
      else duplicated_from (insert (pkey p) seen) ps)"

definition validate_profiles :: "profile list \<Rightarrow> error + profile list" where
  "validate_profiles ps =
     (let duplicated = duplicated_from {} ps
      in if card duplicated \<noteq> 0
         then Inl (TraitError
                ''Invalid wrapspawner profiles, profiles keys are not unique : '' duplicated)
         else Inr ps)"

text \<open>
  \<open>options_from_form\<close>: form data maps a field name to a list of strings. The default
  \<open>[self.profiles[0][1]]\<close> is evaluated before \<open>get\<close> is called, whether or not the key
  is present.
\<close>

definition P_options_from_form ::
  "('c, 'z) profiles_spawner_scheme \<Rightarrow> (string \<rightharpoonup> string list) \<Rightarrow>
   error + (string \<rightharpoonup> string)" where
  "P_options_from_form s formdata =
     (case profiles s of
        [] \<Rightarrow> Inl IndexError
      | p # _ \<Rightarrow>
          (case dict_get formdata ''profile'' [pkey p] of
             [] \<Rightarrow> Inl IndexError
           | v # _ \<Rightarrow> Inr [''profile'' \<mapsto> v]))"

text \<open>\<open>select_profile\<close>: the first profile with the key sets class and config; the loop stops there.\<close>

fun select_from ::
  "profile list \<Rightarrow> string \<Rightarrow> ('c, 'z) wrapper_scheme \<Rightarrow> ('c, 'z) wrapper_scheme" where
  "select_from [] profile s = s"
| "select_from (p # ps) profile s =
     (if pkey p = profile then s\<lparr>child_class := pclass p, child_config := pconfig p\<rparr>
      else select_from ps profile s)"

definition select_profile ::
  "string \<Rightarrow> ('c, 'z) profiles_spawner_scheme \<Rightarrow> ('c, 'z) profiles_spawner_scheme" where
  "select_profile profile s = select_from (profiles s) profile s"

definition P_construct_child ::
  "'c backend \<Rightarrow> ('c, 'z) profiles_spawner_scheme \<Rightarrow> ('c, 'z) profiles_spawner_scheme" where
  "P_construct_child b s =
     (let s1 = s\<lparr>child_profile := dict_get (user_options s) ''profile'' ''''\<rparr>;
          s2 = select_profile (child_profile s1) s1
      in W_construct_child b s2)"

definition P_load_child_class ::
  "pstate \<Rightarrow> ('c, 'z) profiles_spawner_scheme \<Rightarrow> ('c, 'z) profiles_spawner_scheme" where
  "P_load_child_class st s =
     (let s1 = s\<lparr>child_profile := (case st_profile st of Some p \<Rightarrow> p | None \<Rightarrow> '''')\<rparr>
      in select_profile (child_profile s1) s1)"

definition P_load_state ::
  "'c backend \<Rightarrow> ('c, 'z) profiles_spawner_scheme \<Rightarrow> pstate \<Rightarrow>
   ('c, 'z) profiles_spawner_scheme" where
  "P_load_state b s st = load_state P_load_child_class (P_construct_child b) s st"

definition P_start ::
  "'c backend \<Rightarrow> ('c, 'z) profiles_spawner_scheme \<Rightarrow>
   (error + future) \<times> ('c, 'z) profiles_spawner_scheme" where
  "P_start b s = start (P_construct_child b) b s"

definition P_get_state ::
  "'c backend \<Rightarrow> ('c, 'z) profiles_spawner_scheme \<Rightarrow>
   pstate \<times> ('c, 'z) profiles_spawner_scheme" where
  "P_get_state b s =
     (let (state, s1) = W_get_state b s
      in (state\<lparr>st_profile := Some (child_profile s1)\<rparr>, s1))"

definition P_clear_state ::
  "'c backend \<Rightarrow> ('c, 'z) profiles_spawner_scheme \<Rightarrow>
   'c child option \<times> ('c, 'z) profiles_spawner_scheme" where
  "P_clear_state b s =
     (let (dropped, s1) = W_clear_state b s
      in (dropped, s1\<lparr>child_profile := ''''\<rparr>))"

section \<open>DropDownOptionsSpawner\<close>

text \<open>
  The configurable fields read by \<open>options_from_form\<close>: the list of partitions and the
  integer defaults (\<open>default_mem = 2\<close>, \<open>default_cpus = 1\<close>, \<open>default_days = 0\<close>,
  \<open>default_hours = 8\<close>, \<open>default_minutes = 0\<close> unless configured otherwise). They are
  declared with the trait type \<open>Integer\<close>, a name the module does not import either; it is
  read as the integer trait of traitlets.
\<close>

record 'c dropdown_spawner = "'c wrapper" +
  partitions :: "string list"
  default_mem :: int
  default_cpus :: int
  default_days :: int
  default_hours :: int
  default_minutes :: int

text \<open>
  What \<open>formdata.get(key, default)\<close> can return in \<open>options_from_form\<close>: the submitted
  list of strings, or the default, which is a list, an integer or a string. Element 0 of
  it, \<open>v[0]\<close>, is the first string of a list and the first character of a string; an empty
  list or string raises \<open>IndexError\<close>, an integer is not subscriptable (\<open>TypeError\<close>).
\<close>

datatype formval = FList "string list" | FInt int | FStr string

fun item0 :: "formval \<Rightarrow> error + string" where
  "item0 (FList []) = Inl IndexError"
| "item0 (FList (x # xs)) = Inr x"
| "item0 (FInt n) = Inl TypeError"
| "item0 (FStr []) = Inl IndexError"
| "item0 (FStr (c # cs)) = Inr [c]"

definition form_get :: "(string \<rightharpoonup> string list) \<Rightarrow> string \<Rightarrow> formval \<Rightarrow> formval" where
  "form_get formdata k dflt = (case formdata k of None \<Rightarrow> dflt | Some l \<Rightarrow> FList l)"

text \<open>\<open>self.partitions[0][1]\<close>: character 1 of the first partition name.\<close>

definition partition_default :: "string list \<Rightarrow> error + string" where
  "partition_default ps =
     (case ps of
        [] \<Rightarrow> Inl IndexError
      | p # _ \<Rightarrow> (if 1 < length p then Inr [p ! 1] else Inl IndexError))"

text \<open>An exception in one step ends the evaluation; the steps run in the order written.\<close>

definition and_then :: "error + 'a \<Rightarrow> ('a \<Rightarrow> error + 'b) \<Rightarrow> error + 'b" where
  "and_then r f = (case r of Inl e \<Rightarrow> Inl e | Inr x \<Rightarrow> f x)"

definition DD_options_from_form ::
  "('c, 'z) dropdown_spawner_scheme \<Rightarrow> (string \<rightharpoonup> string list) \<Rightarrow>
   error + (string \<rightharpoonup> string)" where
  "DD_options_from_form s formdata =
     and_then (partition_default (partitions s)) (\<lambda>d.
     and_then (item0 (form_get formdata ''partition'' (FList [d]))) (\<lambda>partition.
     and_then (item0 (form_get formdata ''memory'' (FInt (default_mem s)))) (\<lambda>memory.
     and_then (item0 (form_get formdata ''cpus'' (FInt (default_cpus s)))) (\<lambda>cpus.
     and_then (item0 (form_get formdata ''days'' (FInt (default_days s)))) (\<lambda>days.
     and_then (item0 (form_get formdata ''hours'' (FInt (default_hours s)))) (\<lambda>hours.
     and_then (item0 (form_get formdata ''minutes'' (FInt (default_minutes s)))) (\<lambda>minutes.
     and_then (item0 (form_get formdata ''options'' (FStr ''''))) (\<lambda>options.
       Inr [''partition'' \<mapsto> partition, ''memory'' \<mapsto> memory, ''cpus'' \<mapsto> cpus,
            ''days'' \<mapsto> days, ''hours'' \<mapsto> hours, ''minutes'' \<mapsto> minutes,
            ''options'' \<mapsto> options]))))))))"

text \<open>
  The Spawner classes bound in the global scope of the module: the two it imports from
  \<open>jupyterhub.spawner\<close> and the four it defines. Evaluating a name that the scope does not
  bind raises \<open>NameError\<close>.
\<close>

definition module_classes :: "string \<rightharpoonup> cls" where
  "module_classes =
     [''LocalProcessSpawner'' \<mapsto> LocalProcessSpawner, ''Spawner'' \<mapsto> ''Spawner'',
      ''WrapSpawner'' \<mapsto> ''WrapSpawner'', ''ProfilesSpawner'' \<mapsto> ''ProfilesSpawner'',
      ''DockerProfilesSpawner'' \<mapsto> ''DockerProfilesSpawner'',
      ''DropDownOptionsSpawner'' \<mapsto> ''DropDownOptionsSpawner'']"

definition global_class :: "(string \<rightharpoonup> cls) \<Rightarrow> string \<Rightarrow> error + cls" where
  "global_class scope name =
     (case scope name of None \<Rightarrow> Inl (NameError name) | Some k \<Rightarrow> Inr k)"

text \<open>
  The body of \<open>construct_child\<close>, with the global scope it runs in as an argument. Its
  first statement, \<open>self.child_class=SlurmSpawner\<close>, evaluates the name \<open>SlurmSpawner\<close>;
  when that raises, nothing has been assigned. Otherwise five entries of \<open>child_config\<close>
  are assigned from \<open>user_options\<close> and the base class constructs the child.
\<close>

definition DD_construct_child_in ::
  "(string \<rightharpoonup> cls) \<Rightarrow> 'c backend \<Rightarrow> ('c, 'z) dropdown_spawner_scheme \<Rightarrow>
   (error + unit) \<times> ('c, 'z) dropdown_spawner_scheme" where
  "DD_construct_child_in scope b s =
     (case global_class scope ''SlurmSpawner'' of
        Inl e \<Rightarrow> (Inl e, s)
      | Inr slurm \<Rightarrow>
         (let uo = user_options s;
              s0 = s\<lparr>child_class := slurm\<rparr>;
              s1 = s0\<lparr>child_config := (child_config s0)
                      (''req_queue'' \<mapsto> PStr (dict_get uo ''partition'' ''''))\<rparr>;
              s2 = s1\<lparr>child_config := (child_config s1)
                      (''req_memory'' \<mapsto> PStr (dict_get uo ''memory'' '''' @ ''GB''))\<rparr>;
              s3 = s2\<lparr>child_config := (child_config s2)
                      (''req_nprocs'' \<mapsto> PStr (dict_get uo ''cpus'' ''''))\<rparr>;
              s4 = s3\<lparr>child_config := (child_config s3)
                      (''req_runtime'' \<mapsto> PStr (dict_get uo ''days'' '''' @ ''-'' @
                         dict_get uo ''hours'' '''' @ '':'' @ dict_get uo ''minutes'' '''' @
                         '':00''))\<rparr>;
              s5 = s4\<lparr>child_config := (child_config s4)
                      (''req_options'' \<mapsto> PStr (dict_get uo ''options'' ''''))\<rparr>
          in (Inr (), W_construct_child b s5)))"

text \<open>
  \<open>DropDownOptionsSpawner.construct_child\<close> runs in the scope of the module, which binds
  \<open>SlurmSpawner\<close> nowhere: there is no import and no definition of that name.
\<close>

definition DD_construct_child ::
  "'c backend \<Rightarrow> ('c, 'z) dropdown_spawner_scheme \<Rightarrow>
   (error + unit) \<times> ('c, 'z) dropdown_spawner_scheme" where
  "DD_construct_child b s = DD_construct_child_in module_classes b s"

section \<open>A backend for concrete runs\<close>

text \<open>
  A backend whose own state is the dictionary last loaded into it: \<open>clear_state\<close> empties
  it, \<open>start\<close> records a process id, \<open>stop\<close> and \<open>poll\<close> complete at once.
\<close>

definition dict_backend :: "pydict backend" where
  "dict_backend =
     \<lparr>b_init = (\<lambda>k conf. conf),
      b_clear_state = (\<lambda>k i. Map.empty),
      b_load_state = (\<lambda>k i st. st),
      b_get_state = (\<lambda>k i. i),
      b_trait_names = (\<lambda>k. {''ip'', ''port'', ''cmd''}),
      b_start = (\<lambda>k i. (Inr (Resolved (PStr ''127.0.0.1'')), i(''pid'' \<mapsto> PInt 4242))),
      b_stop = (\<lambda>k i now. (Inr (Resolved PNone), Map.empty)),
      b_poll = (\<lambda>k i. (Inr (Resolved (if i = Map.empty then PInt 0 else PNone)), i))\<rparr>"

text \<open>
  A backend in the shape of \<open>LocalProcessSpawner\<close>: an instance holds one number (0 for
  none), \<open>get_state\<close> reports it under the key of its class when it is not 0, \<open>load_state\<close>
  reads that key and ignores every other, \<open>clear_state\<close> sets it to 0. The key is \<open>job_id\<close>
  for \<open>SlurmSpawner\<close> and \<open>pid\<close> for any other class.
\<close>

definition own_key :: "cls \<Rightarrow> string" where
  "own_key k = (if k = ''SlurmSpawner'' then ''job_id'' else ''pid'')"

definition keyed_backend :: "int backend" where
  "keyed_backend =
     \<lparr>b_init = (\<lambda>k conf. 0),
      b_clear_state = (\<lambda>k i. 0),
      b_load_state = (\<lambda>k i st. case st (own_key k) of Some (PInt n) \<Rightarrow> n | _ \<Rightarrow> i),
      b_get_state = (\<lambda>k i. if i = 0 then Map.empty else [own_key k \<mapsto> PInt i]),
      b_trait_names = (\<lambda>k. {''ip'', ''port'', ''cmd''}),
      b_start = (\<lambda>k i. (Inr (Resolved (PStr ''127.0.0.1'')), 4242)),
      b_stop = (\<lambda>k i now. (Inr (Resolved PNone), 0)),
      b_poll = (\<lambda>k i. (Inr (Resolved (if i = 0 then PInt 0 else PNone)), i))\<rparr>"

text \<open>
  A base wrapper as it is created (\<open>child_class\<close> defaults to \<open>LocalProcessSpawner\<close>, the
  dictionaries to \<open>{}\<close>, \<open>child_spawner\<close> to \<open>None\<close>), and the same wrapper after
  \<open>construct_child\<close>.
\<close>

definition default_wrapper :: "pydict wrapper" where
  "default_wrapper =
     \<lparr>child_class = LocalProcessSpawner, child_config = Map.empty, child_state = Map.empty,
      child_spawner = None, user_options = Map.empty,
      trait_names = {''ip'', ''port'', ''child_class''}\<rparr>"

definition constructed_wrapper :: "pydict wrapper" where
  "constructed_wrapper = W_construct_child dict_backend default_wrapper"

text \<open>
  A \<open>ProfilesSpawner\<close> with the default profile and a second one: as created; after
  \<open>construct_child\<close> with the user option \<open>profile = batch\<close>; after \<open>start\<close> on top of that;
  and a newly created one restored by \<open>load_state\<close> (no user options).
\<close>

definition local_profile :: profile where
  "local_profile =
     (''Local Notebook Server'', ''local'', ''LocalProcessSpawner'',
        [''start_timeout'' \<mapsto> PInt 15, ''http_timeout'' \<mapsto> PInt 10])"

definition batch_profile :: profile where
  "batch_profile =
     (''Batch job'', ''batch'', ''SlurmSpawner'', [''req_queue'' \<mapsto> PStr ''standard''])"

definition example_profiles :: "profile list" where
  "example_profiles = [local_profile, batch_profile]"

definition fresh_profiles_spawner :: "pydict profiles_spawner" where
  "fresh_profiles_spawner =
     \<lparr>child_class = LocalProcessSpawner, child_config = Map.empty, child_state = Map.empty,
      child_spawner = None, user_options = Map.empty,
      trait_names = {''ip'', ''port'', ''child_class''},
      profiles = example_profiles, child_profile = ''''\<rparr>"

definition batch_profiles_spawner :: "pydict profiles_spawner" where
  "batch_profiles_spawner =
     P_construct_child dict_backend
       (fresh_profiles_spawner\<lparr>user_options := [''profile'' \<mapsto> ''batch'']\<rparr>)"

definition started_profiles_spawner :: "pydict profiles_spawner" where
  "started_profiles_spawner = snd (P_start dict_backend batch_profiles_spawner)"

definition restored_profiles_spawner :: "pydict profiles_spawner" where
  "restored_profiles_spawner =
     P_load_state dict_backend fresh_profiles_spawner
       \<lparr>st_child_conf = None, st_child_state = Some [''pid'' \<mapsto> PInt 4242],
        st_profile = Some ''batch''\<rparr>"

text \<open>
  The same ProfilesSpawner over the backend with class keys: started with the user option
  \<open>profile = batch\<close> (a \<open>SlurmSpawner\<close> child holding the job 4242), and the same once the
  user options have been replaced by \<open>profile = local\<close> while that child exists.
\<close>

definition running_batch_spawner :: "int profiles_spawner" where
  "running_batch_spawner =
     snd (P_start keyed_backend
       \<lparr>child_class = LocalProcessSpawner, child_config = Map.empty, child_state = Map.empty,
        child_spawner = None, user_options = [''profile'' \<mapsto> ''batch''],
        trait_names = {''ip'', ''port'', ''child_class''},
        profiles = example_profiles, child_profile = ''''\<rparr>)"

definition reoptioned_batch_spawner :: "int profiles_spawner" where
  "reoptioned_batch_spawner =
     running_batch_spawner\<lparr>user_options := [''profile'' \<mapsto> ''local'']\<rparr>"

text \<open>A \<open>DropDownOptionsSpawner\<close> with its default configuration, and submitted options.\<close>

definition default_dropdown_spawner :: "pydict dropdown_spawner" where
  "default_dropdown_spawner =
     \<lparr>child_class = LocalProcessSpawner, child_config = Map.empty, child_state = Map.empty,
      child_spawner = None, user_options = Map.empty,
      trait_names = {''ip'', ''port'', ''child_class''},
      partitions = [''standard''], default_mem = 2, default_cpus = 1, default_days = 0,
      default_hours = 8, default_minutes = 0\<rparr>"

definition submitted_options :: "string \<rightharpoonup> string" where
  "submitted_options =
     [''partition'' \<mapsto> ''standard'', ''memory'' \<mapsto> ''8'', ''cpus'' \<mapsto> ''4'',
      ''days'' \<mapsto> ''1'', ''hours'' \<mapsto> ''2'', ''minutes'' \<mapsto> ''30'',
      ''options'' \<mapsto> ''--flag'']"

section \<open>Notions used by the properties\<close>

text \<open>
  A backend class round-trips its own state: whatever state an instance \<open>i\<close> of the class
  reports, a cleared instance \<open>j\<close> of the class that is given this state reports it again.
  The state is given by \<open>load_state\<close>; when it is the empty dictionary the cleared instance
  is left as it is, which is how \<open>construct_child\<close> restores a child.
\<close>

definition own_state_roundtrips :: "'c backend \<Rightarrow> cls \<Rightarrow> bool" where
  "own_state_roundtrips b k \<longleftrightarrow>
     (\<forall>i j. b_get_state b k
              (if b_get_state b k i \<noteq> Map.empty
               then b_load_state b k (b_clear_state b k j) (b_get_state b k i)
               else b_clear_state b k j)
            = b_get_state b k i)"

text \<open>The sequence \<open>state = get_state(); clear_state(); load_state(state)\<close> on one wrapper.\<close>

definition get_clear_load ::
  "'c backend \<Rightarrow> ('c, 'z) profiles_spawner_scheme \<Rightarrow> ('c, 'z) profiles_spawner_scheme" where
  "get_clear_load b s =
     (let (state, s1) = P_get_state b s;
          (dropped, s2) = P_clear_state b s1
      in P_load_state b s2 state)"

section \<open>Auxiliary facts\<close>

lemma select_from_unknown: "profile \<notin> set (map pkey ps) \<Longrightarrow> select_from ps profile s = s"
  by (induction ps) auto

lemma select_from_known:
  "distinct (map pkey ps) \<Longrightarrow> p \<in> set ps \<Longrightarrow>
   select_from ps (pkey p) s = s\<lparr>child_class := pclass p, child_config := pconfig p\<rparr>"
  by (induction ps) (auto simp: image_iff)

lemma select_from_frame:
  "child_spawner (select_from ps k s) = child_spawner s"
  "child_state (select_from ps k s) = child_state s"
  "user_options (select_from ps k s) = user_options s"
  "trait_names (select_from ps k s) = trait_names s"
  by (induction ps) auto

lemma select_profile_frame:
  "child_spawner (select_profile k s) = child_spawner s"
  "child_state (select_profile k s) = child_state s"
  "user_options (select_profile k s) = user_options s"
  "trait_names (select_profile k s) = trait_names s"
  by (simp_all add: select_profile_def select_from_frame)

lemma new_child_sel:
  "ccls (new_child b k conf cs own) = k"
  "ckwargs (new_child b k conf cs own) = conf"
  by (simp_all add: new_child_def Let_def)

lemma new_child_state:
  assumes "own_state_roundtrips b k"
  shows "b_get_state b k (cinner (new_child b k conf (b_get_state b k i) own)) = b_get_state b k i"
  using assms by (simp add: new_child_def own_state_roundtrips_def Let_def)

lemma W_construct_child_None:
  "child_spawner s = None \<Longrightarrow>
   child_spawner (W_construct_child b s) =
     Some (new_child b (child_class s) (child_config s) (child_state s) (trait_names s))"
  by (simp add: W_construct_child_def)

lemma W_construct_child_fresh:
  assumes "child_spawner s = None"
  shows "child_spawner (W_construct_child b s) =
           Some (new_child b (child_class (W_construct_child b s)) (child_config s)
                   (child_state s) (trait_names s))"
  using assms by (simp add: W_construct_child_def)

lemma P_construct_child_fresh:
  assumes "child_spawner s = None"
  shows "\<exists>conf own. child_spawner (P_construct_child b s) =
           Some (new_child b (child_class (P_construct_child b s)) conf (child_state s) own)"
  using assms
  by (auto simp add: P_construct_child_def Let_def W_construct_child_fresh select_profile_frame)

lemma P_load_state_fresh:
  assumes "child_spawner s = None"
  shows "\<exists>conf own. child_spawner (P_load_state b s st) =
           Some (new_child b (child_class (P_load_state b s st)) conf
                   (case st_child_state st of None \<Rightarrow> Map.empty | Some d \<Rightarrow> d) own)"
proof -
  let ?s3 = "(P_load_child_class st s)
       \<lparr>child_config := child_config (P_load_child_class st s) ++
           (case st_child_conf st of None \<Rightarrow> Map.empty | Some d \<Rightarrow> d),
        child_state := (case st_child_state st of None \<Rightarrow> Map.empty | Some d \<Rightarrow> d)\<rparr>"
  have "child_spawner ?s3 = None"
    using assms by (simp add: P_load_child_class_def select_profile_frame)
  from P_construct_child_fresh [OF this, of b]
  show ?thesis by (simp add: P_load_state_def load_state_def Let_def)
qed

lemma call_child_frame:
  "child_class (snd (call_child m c s)) = child_class s"
  "child_config (snd (call_child m c s)) = child_config s"
  by (simp_all add: call_child_def split: prod.splits)

text \<open>The concrete spawners, evaluated.\<close>

lemma example_profiles_keys: "map pkey example_profiles = [''local'', ''batch'']"
  by (simp add: example_profiles_def local_profile_def batch_profile_def pkey_def)

lemma batch_profiles_spawner_eq:
  "batch_profiles_spawner =
     \<lparr>child_class = ''SlurmSpawner'', child_config = [''req_queue'' \<mapsto> PStr ''standard''],
      child_state = Map.empty,
      child_spawner = Some \<lparr>ccls = ''SlurmSpawner'', ckwargs = [''req_queue'' \<mapsto> PStr ''standard''],
                            clinked = {''ip'', ''port''}, cinner = Map.empty\<rparr>,
      user_options = [''profile'' \<mapsto> ''batch''], trait_names = {''ip'', ''port'', ''child_class''},
      profiles = example_profiles, child_profile = ''batch''\<rparr>"
  by (auto simp add: batch_profiles_spawner_def fresh_profiles_spawner_def example_profiles_def
      local_profile_def batch_profile_def
      P_construct_child_def select_profile_def W_construct_child_def new_child_def dict_backend_def
      pkey_def pclass_def pconfig_def dict_get_def Let_def)

lemma started_profiles_spawner_eq:
  "started_profiles_spawner =
     \<lparr>child_class = ''SlurmSpawner'', child_config = [''req_queue'' \<mapsto> PStr ''standard''],
      child_state = Map.empty,
      child_spawner = Some \<lparr>ccls = ''SlurmSpawner'', ckwargs = [''req_queue'' \<mapsto> PStr ''standard''],
                            clinked = {''ip'', ''port''}, cinner = [''pid'' \<mapsto> PInt 4242]\<rparr>,
      user_options = [''profile'' \<mapsto> ''batch''], trait_names = {''ip'', ''port'', ''child_class''},
      profiles = example_profiles, child_profile = ''batch''\<rparr>"
  by (simp add: started_profiles_spawner_def batch_profiles_spawner_eq P_start_def start_def
      call_child_def dict_backend_def)

lemma restored_profiles_spawner_eq:
  "restored_profiles_spawner =
     \<lparr>child_class = ''SlurmSpawner'', child_config = [''req_queue'' \<mapsto> PStr ''standard''],
      child_state = [''pid'' \<mapsto> PInt 4242],
      child_spawner = Some \<lparr>ccls = ''SlurmSpawner'', ckwargs = [''req_queue'' \<mapsto> PStr ''standard''],
                            clinked = {''ip'', ''port''}, cinner = [''pid'' \<mapsto> PInt 4242]\<rparr>,
      user_options = Map.empty, trait_names = {''ip'', ''port'', ''child_class''},
      profiles = example_profiles, child_profile = ''''\<rparr>"
  by (auto simp add: restored_profiles_spawner_def fresh_profiles_spawner_def example_profiles_def
      local_profile_def batch_profile_def
      P_load_state_def load_state_def P_load_child_class_def
      P_construct_child_def select_profile_def W_construct_child_def new_child_def dict_backend_def
      pkey_def pclass_def pconfig_def dict_get_def Let_def)

lemma constructed_wrapper_eq:
  "constructed_wrapper =
     \<lparr>child_class = LocalProcessSpawner, child_config = Map.empty, child_state = Map.empty,
      child_spawner = Some \<lparr>ccls = LocalProcessSpawner, ckwargs = Map.empty,
                            clinked = {''ip'', ''port''}, cinner = Map.empty\<rparr>,
      user_options = Map.empty, trait_names = {''ip'', ''port'', ''child_class''}\<rparr>"
  by (auto simp add: constructed_wrapper_def default_wrapper_def W_construct_child_def new_child_def
      dict_backend_def Let_def)

text \<open>The backend with class keys round-trips the own state of every class.\<close>

lemma keyed_backend_roundtrips: "own_state_roundtrips keyed_backend k"
  by (simp add: own_state_roundtrips_def keyed_backend_def)

lemma running_batch_spawner_eq:
  "running_batch_spawner =
     \<lparr>child_class = ''SlurmSpawner'', child_config = [''req_queue'' \<mapsto> PStr ''standard''],
      child_state = Map.empty,
      child_spawner = Some \<lparr>ccls = ''SlurmSpawner'', ckwargs = [''req_queue'' \<mapsto> PStr ''standard''],
                            clinked = {''ip'', ''port''}, cinner = 4242\<rparr>,
      user_options = [''profile'' \<mapsto> ''batch''], trait_names = {''ip'', ''port'', ''child_class''},
      profiles = example_profiles, child_profile = ''batch''\<rparr>"
  by (auto simp add: running_batch_spawner_def P_start_def start_def call_child_def
      example_profiles_def local_profile_def batch_profile_def
      P_construct_child_def select_profile_def W_construct_child_def new_child_def keyed_backend_def
      pkey_def pclass_def pconfig_def dict_get_def Let_def)

lemma reoptioned_batch_spawner_eq:
  "reoptioned_batch_spawner =
     \<lparr>child_class = ''SlurmSpawner'', child_config = [''req_queue'' \<mapsto> PStr ''standard''],
      child_state = Map.empty,
      child_spawner = Some \<lparr>ccls = ''SlurmSpawner'', ckwargs = [''req_queue'' \<mapsto> PStr ''standard''],
                            clinked = {''ip'', ''port''}, cinner = 4242\<rparr>,
      user_options = [''profile'' \<mapsto> ''local''], trait_names = {''ip'', ''port'', ''child_class''},
      profiles = example_profiles, child_profile = ''batch''\<rparr>"
  by (simp add: reoptioned_batch_spawner_def running_batch_spawner_eq)

text \<open>The class that a reload selects.\<close>

lemma select_from_class:
  "child_class (select_from ps k s) =
     (case find (\<lambda>p. pkey p = k) ps of None \<Rightarrow> child_class s | Some p \<Rightarrow> pclass p)"
  by (induction ps) auto

lemma select_from_class_again:
  assumes "child_class t = child_class (select_from ps k s)"
  shows "child_class (select_from ps k t) = child_class t"
  using assms by (simp add: select_from_class split: option.splits)

lemma select_from_profiles:
  "profiles (select_from ps k s) = profiles s"
  "child_profile (select_from ps k s) = child_profile s"
  by (induction ps) auto

lemma W_construct_child_class:
  "child_class (W_construct_child b s) = child_class s"
  by (simp add: W_construct_child_def split: option.splits)

lemma P_load_state_class:
  assumes "profiles t = ps"
      and "dict_get (user_options t) ''profile'' '''' = u"
      and "st_profile st = Some u"
      and "child_class t = child_class (select_from ps u s)"
  shows "child_class (P_load_state b t st) = child_class t"
proof -
  define t1 where "t1 = select_from ps u (t\<lparr>child_profile := u\<rparr>)"
  have c1: "child_class t1 = child_class t"
    unfolding t1_def using assms(4) select_from_class_again [of "t\<lparr>child_profile := u\<rparr>" ps u s]
    by simp
  define t2 where "t2 = t1\<lparr>child_config := child_config t1 ++
           (case st_child_conf st of None \<Rightarrow> Map.empty | Some d \<Rightarrow> d),
        child_state := (case st_child_state st of None \<Rightarrow> Map.empty | Some d \<Rightarrow> d)\<rparr>"
  have l: "P_load_state b t st = P_construct_child b t2"
    using assms(1,3)
    by (simp add: P_load_state_def load_state_def P_load_child_class_def select_profile_def
        t1_def t2_def Let_def)
  have f: "profiles t2 = ps" "user_options t2 = user_options t" "child_class t2 = child_class t"
    using assms(1) c1 by (simp_all add: t2_def t1_def select_from_profiles select_from_frame)
  define t3 where "t3 = select_from ps u (t2\<lparr>child_profile := u\<rparr>)"
  have c3: "child_class t3 = child_class t"
    unfolding t3_def
    using f(3) assms(4) select_from_class_again [of "t2\<lparr>child_profile := u\<rparr>" ps u s]
    by simp
  have "P_construct_child b t2 = W_construct_child b t3"
    using f(1,2) assms(2)
    by (simp add: P_construct_child_def select_profile_def t3_def Let_def)
  then show ?thesis by (simp add: l W_construct_child_class c3)
qed

lemma reload_class_after_construct:
  assumes "child_spawner s0 = None"
  shows "\<exists>c. child_spawner (P_construct_child b s0) = Some c \<and>
             child_class (get_clear_load b (P_construct_child b s0)) = ccls c"
proof -
  define u where "u = dict_get (user_options s0) ''profile'' ''''"
  define ps where "ps = profiles s0"
  define s1 where "s1 = select_from ps u (s0\<lparr>child_profile := u\<rparr>)"
  define c where "c = new_child b (child_class s1) (child_config s1) (child_state s1) (trait_names s1)"
  define s where "s = s1\<lparr>child_spawner := Some c\<rparr>"
  have s: "P_construct_child b s0 = s"
    using assms
    by (simp add: P_construct_child_def select_profile_def W_construct_child_def
        select_from_frame s_def s1_def u_def ps_def c_def Let_def)
  define st where "st = fst (P_get_state b s)"
  define t where "t = snd (P_clear_state b (snd (P_get_state b s)))"
  have g: "get_clear_load b s = P_load_state b t st"
    by (simp add: get_clear_load_def st_def t_def split: prod.splits)
  have "st_profile st = Some u"
    by (simp add: st_def P_get_state_def W_get_state_def s_def s1_def select_from_profiles
        Let_def split: prod.splits)
  moreover have "profiles t = ps" and "user_options t = user_options s0"
    and "child_class t = child_class s1"
    by (simp_all add: t_def P_clear_state_def W_clear_state_def clear_child_def P_get_state_def
        W_get_state_def s_def s1_def select_from_profiles select_from_frame ps_def Let_def
        split: prod.splits)
  ultimately have "child_class (P_load_state b t st) = child_class t"
    using P_load_state_class [of t ps u st "s0\<lparr>child_profile := u\<rparr>" b]
    by (simp add: u_def s1_def)
  then have "child_class (get_clear_load b s) = ccls c"
    using \<open>child_class t = child_class s1\<close> by (simp add: g c_def new_child_sel)
  then show ?thesis by (simp add: s s_def)
qed

lemma reload_class_stable:
  assumes "child_profile s = dict_get (user_options s) ''profile'' ''''"
      and "child_class (select_profile (child_profile s) s) = child_class s"
  shows "child_class (get_clear_load b s) = child_class s"
proof -
  define u where "u = child_profile s"
  define st where "st = fst (P_get_state b s)"
  define t where "t = snd (P_clear_state b (snd (P_get_state b s)))"
  have g: "get_clear_load b s = P_load_state b t st"
    by (simp add: get_clear_load_def st_def t_def split: prod.splits)
  have "st_profile st = Some u"
    by (simp add: st_def u_def P_get_state_def W_get_state_def Let_def
        split: prod.splits option.splits)
  moreover have "profiles t = profiles s" and "user_options t = user_options s"
    and "child_class t = child_class s"
    by (simp_all add: t_def P_clear_state_def W_clear_state_def clear_child_def P_get_state_def
        W_get_state_def Let_def split: prod.splits option.splits)
  ultimately have "child_class (P_load_state b t st) = child_class t"
    using P_load_state_class [of t "profiles s" u st s b] assms
    by (simp add: u_def select_profile_def)
  then show ?thesis
    using \<open>child_class t = child_class s\<close> by (simp add: g)
qed

lemma reload_class_after_start:
  assumes "child_spawner s0 = None"
  shows "\<exists>c. child_spawner (snd (P_start b s0)) = Some c \<and>
             child_class (get_clear_load b (snd (P_start b s0))) = ccls c"
proof -
  define u where "u = dict_get (user_options s0) ''profile'' ''''"
  define s1 where "s1 = select_from (profiles s0) u (s0\<lparr>child_profile := u\<rparr>)"
  define c where "c = new_child b (child_class s1) (child_config s1) (child_state s1) (trait_names s1)"
  define d where "d = c\<lparr>cinner := snd (b_start b (ccls c) (cinner c))\<rparr>"
  define s where "s = s1\<lparr>child_spawner := Some d\<rparr>"
  have pc: "P_construct_child b s0 = s1\<lparr>child_spawner := Some c\<rparr>"
    using assms
    by (simp add: P_construct_child_def select_profile_def W_construct_child_def
        select_from_frame s1_def u_def c_def Let_def)
  have s: "snd (P_start b s0) = s"
    using assms
    by (simp add: P_start_def start_def pc call_child_def s_def d_def split: prod.splits)
  have "child_profile s = dict_get (user_options s) ''profile'' ''''"
    by (simp add: s_def s1_def select_from_profiles select_from_frame u_def)
  moreover have "child_class (select_profile (child_profile s) s) = child_class s"
    using select_from_class_again [of s "profiles s0" u "s0\<lparr>child_profile := u\<rparr>"]
    by (simp add: select_profile_def s_def s1_def select_from_profiles)
  ultimately have "child_class (get_clear_load b s) = child_class s"
    by (rule reload_class_stable)
  then show ?thesis
    by (simp add: s) (simp add: s_def d_def c_def new_child_sel)
qed

text \<open>The reload, evaluated on the two spawners with a running batch child.\<close>

lemma reoptioned_batch_spawner_reload:
  "child_spawner (get_clear_load keyed_backend reoptioned_batch_spawner) =
     Some \<lparr>ccls = ''LocalProcessSpawner'',
           ckwargs = [''start_timeout'' \<mapsto> PInt 15, ''http_timeout'' \<mapsto> PInt 10],
           clinked = {''ip'', ''port''}, cinner = 0\<rparr>"
  by (simp add: reoptioned_batch_spawner_eq get_clear_load_def P_get_state_def
        W_get_state_def P_clear_state_def W_clear_state_def clear_child_def P_load_state_def
        load_state_def P_load_child_class_def P_construct_child_def select_profile_def
        W_construct_child_def new_child_def keyed_backend_def own_key_def empty_pstate_def
        example_profiles_def local_profile_def batch_profile_def
        pkey_def pclass_def pconfig_def dict_get_def Let_def)

lemma running_batch_spawner_reload:
  "get_clear_load keyed_backend running_batch_spawner =
     \<lparr>child_class = ''SlurmSpawner'', child_config = [''req_queue'' \<mapsto> PStr ''standard''],
      child_state = [''job_id'' \<mapsto> PInt 4242],
      child_spawner = Some \<lparr>ccls = ''SlurmSpawner'', ckwargs = [''req_queue'' \<mapsto> PStr ''standard''],
                            clinked = {''ip'', ''port''}, cinner = 4242\<rparr>,
      user_options = [''profile'' \<mapsto> ''batch''], trait_names = {''ip'', ''port'', ''child_class''},
      profiles = example_profiles, child_profile = ''batch''\<rparr>"
  by (simp add: running_batch_spawner_eq get_clear_load_def P_get_state_def
        W_get_state_def P_clear_state_def W_clear_state_def clear_child_def P_load_state_def
        load_state_def P_load_child_class_def P_construct_child_def select_profile_def
        W_construct_child_def new_child_def keyed_backend_def own_key_def empty_pstate_def
        example_profiles_def local_profile_def batch_profile_def
        pkey_def pclass_def pconfig_def dict_get_def Let_def)

text \<open>The set collected by \<open>_validate_profiles\<close>, by the number of occurrences of a key.\<close>

lemma finite_duplicated_from: "finite (duplicated_from seen ps)"
  by (induction ps arbitrary: seen) auto

lemma duplicated_from_iff:
  "k \<in> duplicated_from seen ps \<longleftrightarrow>
     (k \<in> seen \<and> 1 \<le> count_list (map pkey ps) k) \<or> 2 \<le> count_list (map pkey ps) k"
  by (induction ps arbitrary: seen) auto

lemma distinct_count_list_le: "distinct xs \<longleftrightarrow> (\<forall>k. count_list xs k \<le> 1)"
proof (induction xs)
  case Nil
  then show ?case by simp
next
  case (Cons x xs)
  show ?case
  proof
    assume "distinct (x # xs)"
    with Cons show "\<forall>k. count_list (x # xs) k \<le> 1" by (auto simp: count_list_0_iff)
  next
    assume a: "\<forall>k. count_list (x # xs) k \<le> 1"
    then have "count_list (x # xs) x \<le> 1" by blast
    then have "x \<notin> set xs" by (simp add: count_list_0_iff)
    moreover have "\<forall>k. count_list xs k \<le> 1"
    proof
      fix k
      from a have "count_list (x # xs) k \<le> 1" by blast
      then show "count_list xs k \<le> 1" by (simp split: if_splits)
    qed
    ultimately show "distinct (x # xs)" using Cons by simp
  qed
qed

lemma duplicated_from_distinct:
  assumes "distinct (map pkey ps)"
  shows "duplicated_from {} ps = {}"
proof -
  from assms have "\<forall>k. count_list (map pkey ps) k \<le> 1"
    by (simp add: distinct_count_list_le)
  then have "\<forall>k. \<not> 2 \<le> count_list (map pkey ps) k"
    by (metis not_less_eq_eq numeral_2_eq_2 One_nat_def)
  then show ?thesis by (auto simp: duplicated_from_iff)
qed

section \<open>Selecting a profile and constructing the child\<close>

text \<open>
  C1, as stated, fails: \<open>ProfilesSpawner.construct_child\<close> selects again, from
  \<open>user_options\<close>. With the unique keys \<open>local\<close> and \<open>batch\<close>, no child, and the user option
  \<open>profile = batch\<close>, \<open>select_profile(local)\<close> followed by \<open>construct_child()\<close> builds a child
  of the class and with the config of the profile \<open>batch\<close>, not of \<open>local\<close>.
\<close>

theorem select_then_construct_counterexample:
  "distinct (map pkey (profiles fresh_profiles_spawner)) \<and>
   local_profile \<in> set (profiles fresh_profiles_spawner) \<and>
   child_spawner (fresh_profiles_spawner\<lparr>user_options := [''profile'' \<mapsto> ''batch'']\<rparr>) = None \<and>
   map_option ccls (child_spawner (P_construct_child dict_backend
      (select_profile (pkey local_profile)
         (fresh_profiles_spawner\<lparr>user_options := [''profile'' \<mapsto> ''batch'']\<rparr>))))
     = Some ''SlurmSpawner'' \<and>
   map_option ckwargs (child_spawner (P_construct_child dict_backend
      (select_profile (pkey local_profile)
         (fresh_profiles_spawner\<lparr>user_options := [''profile'' \<mapsto> ''batch'']\<rparr>))))
     = Some [''req_queue'' \<mapsto> PStr ''standard''] \<and>
   pclass local_profile = ''LocalProcessSpawner'' \<and>
   pconfig local_profile ''req_queue'' = None"
  by (simp add: fresh_profiles_spawner_def example_profiles_def local_profile_def batch_profile_def
      pkey_def pclass_def pconfig_def dict_get_def
      P_construct_child_def select_profile_def W_construct_child_def new_child_def Let_def)

text \<open>
  C1, amended: for every profile list with unique keys and every profile \<open>p\<close> in it, on a
  ProfilesSpawner with no child whose user option \<open>profile\<close> (the empty string when absent)
  is the key of \<open>p\<close> or the key of no profile, \<open>select_profile(key of p)\<close> followed by
  \<open>construct_child()\<close> produces a child whose class is the Spawner class of \<open>p\<close> and whose
  configuration is the config dictionary of \<open>p\<close>.
\<close>

theorem select_then_construct:
  assumes "distinct (map pkey (profiles s))"
      and "p \<in> set (profiles s)"
      and "child_spawner s = None"
      and "dict_get (user_options s) ''profile'' '''' = pkey p \<or>
           dict_get (user_options s) ''profile'' '''' \<notin> set (map pkey (profiles s))"
  shows "\<exists>c. child_spawner (P_construct_child b (select_profile (pkey p) s)) = Some c \<and>
             ccls c = pclass p \<and> ckwargs c = pconfig p"
proof -
  define s1 where "s1 = s\<lparr>child_class := pclass p, child_config := pconfig p\<rparr>"
  define u where "u = dict_get (user_options s) ''profile'' ''''"
  define s2 where "s2 = s1\<lparr>child_profile := u\<rparr>"
  have sel1: "select_profile (pkey p) s = s1"
    using assms(1,2) by (simp add: s1_def select_profile_def select_from_known)
  have sel2: "select_profile u s2 = s2"
  proof (cases "u = pkey p")
    case True
    then show ?thesis
      using assms(1,2) by (simp add: s2_def s1_def select_profile_def select_from_known)
  next
    case False
    with assms(4) have "u \<notin> set (map pkey (profiles s))" by (simp add: u_def)
    then show ?thesis
      by (simp add: s2_def s1_def select_profile_def select_from_unknown)
  qed
  have "P_construct_child b s1 = W_construct_child b s2"
    using sel2 by (simp add: P_construct_child_def s2_def s1_def u_def)
  moreover have "child_spawner s2 = None"
    using assms(3) by (simp add: s2_def s1_def)
  ultimately show ?thesis
    by (simp add: sel1 W_construct_child_None new_child_sel s2_def s1_def)
qed

theorem select_then_construct_witness:
  "distinct (map pkey (profiles fresh_profiles_spawner)) \<and>
   batch_profile \<in> set (profiles fresh_profiles_spawner) \<and>
   child_spawner fresh_profiles_spawner = None \<and>
   dict_get (user_options fresh_profiles_spawner) ''profile'' ''''
     \<notin> set (map pkey (profiles fresh_profiles_spawner)) \<and>
   map_option ccls (child_spawner (P_construct_child dict_backend
      (select_profile (pkey batch_profile) fresh_profiles_spawner))) = Some ''SlurmSpawner'' \<and>
   map_option ckwargs (child_spawner (P_construct_child dict_backend
      (select_profile (pkey batch_profile) fresh_profiles_spawner)))
     = Some [''req_queue'' \<mapsto> PStr ''standard'']"
proof -
  have h1: "distinct (map pkey (profiles fresh_profiles_spawner))"
    by (simp add: fresh_profiles_spawner_def example_profiles_keys)
  have h2: "batch_profile \<in> set (profiles fresh_profiles_spawner)"
    by (simp add: fresh_profiles_spawner_def example_profiles_def)
  have h3: "child_spawner fresh_profiles_spawner = None"
    by (simp add: fresh_profiles_spawner_def)
  have h4: "dict_get (user_options fresh_profiles_spawner) ''profile'' ''''
     \<notin> set (map pkey (profiles fresh_profiles_spawner))"
    by (simp add: fresh_profiles_spawner_def example_profiles_keys dict_get_def)
  from select_then_construct [OF h1 h2 h3 disjI2 [OF h4], of dict_backend]
  obtain c where "child_spawner (P_construct_child dict_backend
      (select_profile (pkey batch_profile) fresh_profiles_spawner)) = Some c"
    and "ccls c = pclass batch_profile" and "ckwargs c = pconfig batch_profile"
    by blast
  then show ?thesis using h1 h2 h3 h4
    by (simp add: batch_profile_def pclass_def pconfig_def)
qed

section \<open>Saving and restoring the state\<close>

text \<open>
  C2, as stated, fails: \<open>load_state\<close> ends in \<open>ProfilesSpawner.construct_child\<close>, which
  selects the profile named by \<open>user_options\<close>, so the new child need not be of the class
  of the original one. A ProfilesSpawner holds a \<open>SlurmSpawner\<close> child that reports
  \<open>{job_id: 4242}\<close>, and its user options have since become \<open>profile = local\<close>. Both
  classes round-trip their own state, yet after \<open>get_state()\<close>, \<open>clear_state()\<close> and
  \<open>load_state\<close> of the captured state the child is a \<open>LocalProcessSpawner\<close> that holds
  nothing and reports \<open>{}\<close>.
\<close>

theorem state_round_trip_counterexample:
  "map_option ccls (child_spawner reoptioned_batch_spawner) = Some ''SlurmSpawner'' \<and>
   map_option cinner (child_spawner reoptioned_batch_spawner) = Some 4242 \<and>
   b_get_state keyed_backend ''SlurmSpawner'' 4242 = [''job_id'' \<mapsto> PInt 4242] \<and>
   own_state_roundtrips keyed_backend ''SlurmSpawner'' \<and>
   own_state_roundtrips keyed_backend ''LocalProcessSpawner'' \<and>
   map_option ccls (child_spawner (get_clear_load keyed_backend reoptioned_batch_spawner))
     = Some ''LocalProcessSpawner'' \<and>
   map_option cinner (child_spawner (get_clear_load keyed_backend reoptioned_batch_spawner))
     = Some 0 \<and>
   b_get_state keyed_backend ''LocalProcessSpawner'' 0 = Map.empty \<and>
   b_get_state keyed_backend ''SlurmSpawner'' 4242
     \<noteq> b_get_state keyed_backend ''LocalProcessSpawner'' 0"
proof -
  have "map_option ccls (child_spawner reoptioned_batch_spawner) = Some ''SlurmSpawner''"
    and "map_option cinner (child_spawner reoptioned_batch_spawner) = Some 4242"
    by (simp_all add: reoptioned_batch_spawner_eq)
  moreover have "b_get_state keyed_backend ''SlurmSpawner'' 4242 = [''job_id'' \<mapsto> PInt 4242]"
    and "b_get_state keyed_backend ''LocalProcessSpawner'' 0 = Map.empty"
    and "b_get_state keyed_backend ''SlurmSpawner'' 4242
           \<noteq> b_get_state keyed_backend ''LocalProcessSpawner'' 0"
    by (simp_all add: keyed_backend_def own_key_def)
  moreover have "own_state_roundtrips keyed_backend ''SlurmSpawner''"
    and "own_state_roundtrips keyed_backend ''LocalProcessSpawner''"
    by (rule keyed_backend_roundtrips)+
  moreover have
    "map_option ccls (child_spawner (get_clear_load keyed_backend reoptioned_batch_spawner))
       = Some ''LocalProcessSpawner''"
    and "map_option cinner (child_spawner (get_clear_load keyed_backend reoptioned_batch_spawner))
       = Some 0"
    by (simp_all add: reoptioned_batch_spawner_reload)
  ultimately show ?thesis by blast
qed

text \<open>
  C2, amended: on a ProfilesSpawner with a child, when the class that \<open>load_state\<close> selects
  again is the class of that child and this class round-trips its own state, then
  \<open>get_state()\<close>, \<open>clear_state()\<close> and \<open>load_state\<close> of the captured state leave a child of
  the same class whose \<open>get_state()\<close> is the state the original child reported before it
  was cleared. The class is selected again whenever the child was built by
  \<open>construct_child\<close> or \<open>start\<close> and the user options have not changed since
  (\<open>reload_class_after_construct\<close>, \<open>reload_class_after_start\<close>).
\<close>

theorem state_round_trip:
  assumes "child_spawner s = Some c"
      and "child_class (get_clear_load b s) = ccls c"
      and "own_state_roundtrips b (ccls c)"
  shows "\<exists>c'. child_spawner (get_clear_load b s) = Some c' \<and> ccls c' = ccls c \<and>
              b_get_state b (ccls c') (cinner c') = b_get_state b (ccls c) (cinner c)"
proof -
  define cs where "cs = b_get_state b (ccls c) (cinner c)"
  define state where "state = fst (P_get_state b s)"
  define s2 where "s2 = snd (P_clear_state b (snd (P_get_state b s)))"
  have gcl: "get_clear_load b s = P_load_state b s2 state"
    by (simp add: get_clear_load_def state_def s2_def split: prod.splits)
  have st: "st_child_state state = Some cs"
    using assms(1)
    by (simp add: state_def cs_def P_get_state_def W_get_state_def Let_def)
  have "child_spawner s2 = None"
    by (simp add: s2_def P_clear_state_def W_clear_state_def Let_def split: prod.splits)
  moreover have cls: "child_class (P_load_state b s2 state) = ccls c"
    using assms(2) by (simp add: gcl)
  ultimately obtain conf own where
    "child_spawner (P_load_state b s2 state) = Some (new_child b (ccls c) conf cs own)"
    using P_load_state_fresh [of s2 b state] by (auto simp: st)
  then show ?thesis
    using new_child_state [OF assms(3), of conf "cinner c" own]
    by (simp add: gcl cs_def new_child_sel)
qed

theorem state_round_trip_witness:
  "child_spawner running_batch_spawner =
     Some \<lparr>ccls = ''SlurmSpawner'', ckwargs = [''req_queue'' \<mapsto> PStr ''standard''],
           clinked = {''ip'', ''port''}, cinner = 4242\<rparr> \<and>
   child_class (get_clear_load keyed_backend running_batch_spawner) = ''SlurmSpawner'' \<and>
   own_state_roundtrips keyed_backend ''SlurmSpawner'' \<and>
   b_get_state keyed_backend ''SlurmSpawner'' 4242 = [''job_id'' \<mapsto> PInt 4242] \<and>
   map_option ccls (child_spawner (get_clear_load keyed_backend running_batch_spawner))
     = Some ''SlurmSpawner'' \<and>
   map_option cinner (child_spawner (get_clear_load keyed_backend running_batch_spawner))
     = Some 4242"
proof -
  let ?c = "\<lparr>ccls = ''SlurmSpawner'', ckwargs = [''req_queue'' \<mapsto> PStr ''standard''],
            clinked = {''ip'', ''port''}, cinner = (4242::int)\<rparr>"
  have c: "child_spawner running_batch_spawner = Some ?c"
    by (simp add: running_batch_spawner_eq)
  have k: "child_class (get_clear_load keyed_backend running_batch_spawner) = ccls ?c"
    by (simp add: running_batch_spawner_reload)
  have r: "own_state_roundtrips keyed_backend (ccls ?c)"
    by (rule keyed_backend_roundtrips)
  have g: "b_get_state keyed_backend ''SlurmSpawner'' 4242 = [''job_id'' \<mapsto> PInt 4242]"
    by (simp add: keyed_backend_def own_key_def)
  from state_round_trip [OF c k r] c k r g show ?thesis
    by (simp add: running_batch_spawner_reload)
qed

section \<open>Stopping and polling without a child\<close>

text \<open>
  C3: on a wrapper with no child, \<open>stop(now)\<close> and \<open>poll()\<close> do not raise: \<open>stop\<close> returns a
  future that is already completed with \<open>None\<close>, \<open>poll\<close> a future that is already completed
  with the value 1, which is not \<open>None\<close>; the wrapper is left as it was.
\<close>

theorem stop_poll_without_child:
  assumes "child_spawner s = None"
  shows "stop b s now = (Inr (Resolved PNone), s) \<and>
         poll b s = (Inr (Resolved (PInt 1)), s) \<and>
         PInt 1 \<noteq> PNone"
  using assms by (simp add: stop_def poll_def yield_val_def set_result_def)

theorem stop_poll_without_child_witness:
  "child_spawner default_wrapper = None \<and>
   stop dict_backend default_wrapper False = (Inr (Resolved PNone), default_wrapper) \<and>
   stop dict_backend default_wrapper True = (Inr (Resolved PNone), default_wrapper) \<and>
   poll dict_backend default_wrapper = (Inr (Resolved (PInt 1)), default_wrapper)"
proof -
  have h: "child_spawner default_wrapper = None"
    by (simp add: default_wrapper_def)
  from stop_poll_without_child [OF h, of dict_backend False]
       stop_poll_without_child [OF h, of dict_backend True] h
  show ?thesis by simp
qed

section \<open>Selecting an unknown key\<close>

text \<open>
  C4: for every ProfilesSpawner state and every key that is the key of no profile in the
  list, \<open>select_profile\<close> leaves \<open>child_class\<close> and \<open>child_config\<close> as they were.
\<close>

theorem select_profile_unknown_noop:
  assumes "profile \<notin> set (map pkey (profiles s))"
  shows "child_class (select_profile profile s) = child_class s \<and>
         child_config (select_profile profile s) = child_config s"
  using assms by (simp add: select_profile_def select_from_unknown)

theorem select_profile_unknown_noop_witness:
  "''gpu'' \<notin> set (map pkey (profiles batch_profiles_spawner)) \<and>
   child_class (select_profile ''gpu'' batch_profiles_spawner) = ''SlurmSpawner'' \<and>
   child_config (select_profile ''gpu'' batch_profiles_spawner) =
     [''req_queue'' \<mapsto> PStr ''standard'']"
proof -
  have h: "''gpu'' \<notin> set (map pkey (profiles batch_profiles_spawner))"
    by (simp add: batch_profiles_spawner_eq example_profiles_keys)
  from select_profile_unknown_noop [OF h] h show ?thesis
    by (simp add: batch_profiles_spawner_eq)
qed

section \<open>Validating the profile list\<close>

text \<open>
  C5: a profile list in which two profiles \<open>p\<close> and \<open>q\<close> have the same key is rejected by
  \<open>_validate_profiles\<close> with a \<open>TraitError\<close> whose message is formatted with a set that
  contains that key; a profile list with distinct keys is returned unchanged.
\<close>

theorem validate_profiles_duplicate_keys:
  "(pkey p = pkey q \<longrightarrow>
      (\<exists>duplicated. validate_profiles (xs @ p # ys @ q # zs) =
          Inl (TraitError ''Invalid wrapspawner profiles, profiles keys are not unique : ''
                 duplicated) \<and>
        pkey p \<in> duplicated)) \<and>
   (distinct (map pkey ps) \<longrightarrow> validate_profiles ps = Inr ps)"
proof (intro conjI impI)
  assume eq: "pkey p = pkey q"
  let ?l = "xs @ p # ys @ q # zs"
  have "2 \<le> count_list (map pkey ?l) (pkey p)" using eq by simp
  then have mem: "pkey p \<in> duplicated_from {} ?l" by (simp add: duplicated_from_iff)
  then have "card (duplicated_from {} ?l) \<noteq> 0"
    using finite_duplicated_from [of "{}" ?l] by auto
  with mem show "\<exists>duplicated. validate_profiles ?l =
          Inl (TraitError ''Invalid wrapspawner profiles, profiles keys are not unique : ''
                 duplicated) \<and>
        pkey p \<in> duplicated"
    by (simp add: validate_profiles_def Let_def)
next
  assume "distinct (map pkey ps)"
  then show "validate_profiles ps = Inr ps"
    by (simp add: validate_profiles_def duplicated_from_distinct)
qed

theorem validate_profiles_duplicate_keys_witness:
  "pkey (''A'', ''x'', ''LocalProcessSpawner'', Map.empty) =
     pkey (''B'', ''x'', ''SlurmSpawner'', Map.empty) \<and>
   validate_profiles ([] @ (''A'', ''x'', ''LocalProcessSpawner'', Map.empty) # [] @
                     (''B'', ''x'', ''SlurmSpawner'', Map.empty) # []) =
     Inl (TraitError ''Invalid wrapspawner profiles, profiles keys are not unique : '' {''x''}) \<and>
   distinct (map pkey example_profiles) \<and>
   validate_profiles example_profiles = Inr example_profiles"
proof -
  have k: "pkey (''A'', ''x'', ''LocalProcessSpawner'', Map.empty) =
     pkey (''B'', ''x'', ''SlurmSpawner'', Map.empty)"
    by (simp add: pkey_def)
  have d: "distinct (map pkey example_profiles)"
    by (simp add: example_profiles_keys)
  have v: "validate_profiles ([] @ (''A'', ''x'', ''LocalProcessSpawner'', Map.empty) # [] @
                     (''B'', ''x'', ''SlurmSpawner'', Map.empty) # []) =
     Inl (TraitError ''Invalid wrapspawner profiles, profiles keys are not unique : '' {''x''})"
    by (simp add: validate_profiles_def pkey_def)
  from validate_profiles_duplicate_keys
         [of "(''A'', ''x'', ''LocalProcessSpawner'', Map.empty)"
             "(''B'', ''x'', ''SlurmSpawner'', Map.empty)" "[]" "[]" "[]" example_profiles]
       k d v
  show ?thesis by simp
qed

section \<open>Clearing the state\<close>

text \<open>
  C6, as stated, fails: \<open>clear_state\<close> assigns \<open>child_state\<close>, \<open>child_config\<close> and
  \<open>child_spawner\<close> and never \<open>child_class\<close>. A ProfilesSpawner that had selected the profile
  \<open>batch\<close> still has the class of that profile after \<open>clear_state()\<close>, not the class of an
  unselected wrapper.
\<close>

theorem clear_state_keeps_class_counterexample:
  "child_spawner batch_profiles_spawner \<noteq> None \<and>
   child_class (snd (P_clear_state dict_backend batch_profiles_spawner)) = ''SlurmSpawner'' \<and>
   child_class (snd (P_clear_state dict_backend batch_profiles_spawner))
     \<noteq> child_class fresh_profiles_spawner"
  by (simp add: batch_profiles_spawner_eq P_clear_state_def W_clear_state_def clear_child_def
      fresh_profiles_spawner_def LocalProcessSpawner_def)

text \<open>
  C6, amended: for every wrapper state, \<open>clear_state()\<close> leaves a child that existed with
  its own state cleared by the child's \<open>clear_state\<close>, and leaves the wrapper with no child
  reference and with empty \<open>child_config\<close> and \<open>child_state\<close> (for a ProfilesSpawner
  \<open>child_profile\<close> is the empty string as well); \<open>child_class\<close> is not reset and keeps the
  value it had.
\<close>

theorem clear_state_resets:
  "(child_spawner s = Some c \<longrightarrow>
      fst (W_clear_state b s) = Some (c\<lparr>cinner := b_clear_state b (ccls c) (cinner c)\<rparr>)) \<and>
   (child_spawner s = None \<longrightarrow> fst (W_clear_state b s) = None) \<and>
   child_spawner (snd (W_clear_state b s)) = None \<and>
   child_config (snd (W_clear_state b s)) = Map.empty \<and>
   child_state (snd (W_clear_state b s)) = Map.empty \<and>
   child_class (snd (W_clear_state b s)) = child_class s \<and>
   (child_spawner t = Some d \<longrightarrow>
      fst (P_clear_state b t) = Some (d\<lparr>cinner := b_clear_state b (ccls d) (cinner d)\<rparr>)) \<and>
   (child_spawner t = None \<longrightarrow> fst (P_clear_state b t) = None) \<and>
   child_spawner (snd (P_clear_state b t)) = None \<and>
   child_config (snd (P_clear_state b t)) = Map.empty \<and>
   child_state (snd (P_clear_state b t)) = Map.empty \<and>
   child_profile (snd (P_clear_state b t)) = '''' \<and>
   child_class (snd (P_clear_state b t)) = child_class t"
  by (simp add: P_clear_state_def W_clear_state_def clear_child_def
      split: option.splits prod.splits)

theorem clear_state_resets_witness:
  "child_spawner (snd (W_start dict_backend constructed_wrapper)) =
     Some \<lparr>ccls = LocalProcessSpawner, ckwargs = Map.empty,
           clinked = {''ip'', ''port''}, cinner = [''pid'' \<mapsto> PInt 4242]\<rparr> \<and>
   fst (W_clear_state dict_backend (snd (W_start dict_backend constructed_wrapper))) =
     Some \<lparr>ccls = LocalProcessSpawner, ckwargs = Map.empty,
           clinked = {''ip'', ''port''}, cinner = Map.empty\<rparr> \<and>
   child_spawner default_wrapper = None \<and>
   fst (W_clear_state dict_backend default_wrapper) = None \<and>
   child_spawner running_batch_spawner =
     Some \<lparr>ccls = ''SlurmSpawner'', ckwargs = [''req_queue'' \<mapsto> PStr ''standard''],
           clinked = {''ip'', ''port''}, cinner = 4242\<rparr> \<and>
   fst (P_clear_state keyed_backend running_batch_spawner) =
     Some \<lparr>ccls = ''SlurmSpawner'', ckwargs = [''req_queue'' \<mapsto> PStr ''standard''],
           clinked = {''ip'', ''port''}, cinner = 0\<rparr> \<and>
   child_spawner (snd (P_clear_state keyed_backend running_batch_spawner)) = None \<and>
   child_config (snd (P_clear_state keyed_backend running_batch_spawner)) = Map.empty \<and>
   child_class (snd (P_clear_state keyed_backend running_batch_spawner)) = ''SlurmSpawner''"
proof -
  have h: "child_spawner (snd (W_start dict_backend constructed_wrapper)) =
     Some \<lparr>ccls = LocalProcessSpawner, ckwargs = Map.empty,
           clinked = {''ip'', ''port''}, cinner = [''pid'' \<mapsto> PInt 4242]\<rparr>"
    by (simp add: constructed_wrapper_eq W_start_def start_def call_child_def dict_backend_def)
  have n: "child_spawner default_wrapper = None"
    by (simp add: default_wrapper_def)
  have t: "child_spawner running_batch_spawner =
     Some \<lparr>ccls = ''SlurmSpawner'', ckwargs = [''req_queue'' \<mapsto> PStr ''standard''],
           clinked = {''ip'', ''port''}, cinner = 4242\<rparr>"
    by (simp add: running_batch_spawner_eq)
  have k: "child_class running_batch_spawner = ''SlurmSpawner''"
    by (simp add: running_batch_spawner_eq)
  have e: "b_clear_state dict_backend LocalProcessSpawner [''pid'' \<mapsto> PInt 4242] = Map.empty"
          "b_clear_state keyed_backend ''SlurmSpawner'' 4242 = 0"
    by (simp_all add: dict_backend_def keyed_backend_def)
  have a: "fst (W_clear_state dict_backend (snd (W_start dict_backend constructed_wrapper))) =
     Some \<lparr>ccls = LocalProcessSpawner, ckwargs = Map.empty,
           clinked = {''ip'', ''port''}, cinner = Map.empty\<rparr>"
    using clear_state_resets
         [of "snd (W_start dict_backend constructed_wrapper)"
             "\<lparr>ccls = LocalProcessSpawner, ckwargs = Map.empty,
               clinked = {''ip'', ''port''}, cinner = [''pid'' \<mapsto> PInt 4242]\<rparr>"
             dict_backend started_profiles_spawner] h e
    by simp
  have b: "fst (W_clear_state dict_backend default_wrapper) = None"
    using clear_state_resets [of default_wrapper _ dict_backend started_profiles_spawner] n
    by simp
  have c: "fst (P_clear_state keyed_backend running_batch_spawner) =
     Some \<lparr>ccls = ''SlurmSpawner'', ckwargs = [''req_queue'' \<mapsto> PStr ''standard''],
           clinked = {''ip'', ''port''}, cinner = 0\<rparr>"
       "child_spawner (snd (P_clear_state keyed_backend running_batch_spawner)) = None"
       "child_config (snd (P_clear_state keyed_backend running_batch_spawner)) = Map.empty"
       "child_class (snd (P_clear_state keyed_backend running_batch_spawner)) = ''SlurmSpawner''"
    using clear_state_resets
         [of running_batch_spawner _ keyed_backend running_batch_spawner
             "\<lparr>ccls = ''SlurmSpawner'', ckwargs = [''req_queue'' \<mapsto> PStr ''standard''],
               clinked = {''ip'', ''port''}, cinner = 4242\<rparr>"] t k e
    by simp_all
  from h n t a b c show ?thesis by simp
qed

section \<open>The selection while a child exists\<close>

text \<open>
  C7, as stated, fails: with a child in place, \<open>load_state\<close> of a state that names the
  profile \<open>local\<close> changes \<open>child_class\<close>, and so does \<open>construct_child\<close> of a ProfilesSpawner
  whose user options name the profile \<open>local\<close>. Both select a profile without looking at
  \<open>child_spawner\<close>.
\<close>

theorem selection_changes_with_child_counterexample:
  "child_spawner restored_profiles_spawner \<noteq> None \<and>
   child_class (P_load_state dict_backend restored_profiles_spawner
       \<lparr>st_child_conf = None, st_child_state = None, st_profile = Some ''local''\<rparr>)
     \<noteq> child_class restored_profiles_spawner \<and>
   child_spawner batch_profiles_spawner \<noteq> None \<and>
   child_class (P_construct_child dict_backend
       (batch_profiles_spawner\<lparr>user_options := [''profile'' \<mapsto> ''local'']\<rparr>))
     \<noteq> child_class batch_profiles_spawner"
  by (simp add: restored_profiles_spawner_eq batch_profiles_spawner_eq P_load_state_def
      load_state_def P_load_child_class_def P_construct_child_def select_profile_def
      W_construct_child_def example_profiles_def local_profile_def batch_profile_def
      pkey_def pclass_def pconfig_def dict_get_def Let_def)

text \<open>
  C7, amended: while a child reference exists, \<open>construct_child\<close> of the base wrapper does
  nothing, and \<open>get_state\<close>, \<open>start\<close>, \<open>stop\<close> and \<open>poll\<close> (of the base wrapper and of a
  ProfilesSpawner) leave \<open>child_class\<close> and \<open>child_config\<close> unchanged; so does
  \<open>construct_child\<close> of a ProfilesSpawner when the user option \<open>profile\<close> is the key of no
  profile. Nothing is said for \<open>load_state\<close> and for a \<open>construct_child\<close> whose user option
  names a profile: they select again.
\<close>

theorem selection_fixed_with_child:
  assumes "child_spawner s = Some c" and "child_spawner t = Some d"
  shows "W_construct_child b s = s \<and>
         child_class (snd (W_get_state b s)) = child_class s \<and>
         child_config (snd (W_get_state b s)) = child_config s \<and>
         child_class (snd (W_start b s)) = child_class s \<and>
         child_config (snd (W_start b s)) = child_config s \<and>
         child_class (snd (stop b s now)) = child_class s \<and>
         child_config (snd (stop b s now)) = child_config s \<and>
         child_class (snd (poll b s)) = child_class s \<and>
         child_config (snd (poll b s)) = child_config s \<and>
         child_class (snd (P_get_state b t)) = child_class t \<and>
         child_config (snd (P_get_state b t)) = child_config t \<and>
         child_class (snd (P_start b t)) = child_class t \<and>
         child_config (snd (P_start b t)) = child_config t \<and>
         (dict_get (user_options t) ''profile'' '''' \<notin> set (map pkey (profiles t)) \<longrightarrow>
            child_class (P_construct_child b t) = child_class t \<and>
            child_config (P_construct_child b t) = child_config t)"
  using assms
  by (simp add: W_construct_child_def W_get_state_def W_start_def P_start_def start_def stop_def
      poll_def call_child_frame P_get_state_def P_construct_child_def select_profile_def
      select_from_unknown Let_def split: prod.splits)

theorem selection_fixed_with_child_witness:
  "child_spawner constructed_wrapper \<noteq> None \<and>
   child_spawner restored_profiles_spawner \<noteq> None \<and>
   dict_get (user_options restored_profiles_spawner) ''profile'' ''''
     \<notin> set (map pkey (profiles restored_profiles_spawner)) \<and>
   W_construct_child dict_backend constructed_wrapper = constructed_wrapper \<and>
   child_class (snd (W_start dict_backend constructed_wrapper)) = LocalProcessSpawner \<and>
   child_config (snd (W_start dict_backend constructed_wrapper)) = Map.empty \<and>
   child_class (snd (P_start dict_backend restored_profiles_spawner)) = ''SlurmSpawner'' \<and>
   child_class (P_construct_child dict_backend restored_profiles_spawner) = ''SlurmSpawner'' \<and>
   child_config (P_construct_child dict_backend restored_profiles_spawner) =
     [''req_queue'' \<mapsto> PStr ''standard'']"
proof -
  have hs: "child_spawner constructed_wrapper =
     Some \<lparr>ccls = LocalProcessSpawner, ckwargs = Map.empty,
           clinked = {''ip'', ''port''}, cinner = Map.empty\<rparr>"
    by (simp add: constructed_wrapper_eq)
  have ht: "child_spawner restored_profiles_spawner =
     Some \<lparr>ccls = ''SlurmSpawner'', ckwargs = [''req_queue'' \<mapsto> PStr ''standard''],
           clinked = {''ip'', ''port''}, cinner = [''pid'' \<mapsto> PInt 4242]\<rparr>"
    by (simp add: restored_profiles_spawner_eq)
  have hu: "dict_get (user_options restored_profiles_spawner) ''profile'' ''''
     \<notin> set (map pkey (profiles restored_profiles_spawner))"
    by (simp add: restored_profiles_spawner_eq example_profiles_keys dict_get_def)
  have cs: "child_class constructed_wrapper = LocalProcessSpawner"
           "child_config constructed_wrapper = Map.empty"
    by (simp_all add: constructed_wrapper_eq)
  have ct: "child_class restored_profiles_spawner = ''SlurmSpawner''"
           "child_config restored_profiles_spawner = [''req_queue'' \<mapsto> PStr ''standard'']"
    by (simp_all add: restored_profiles_spawner_eq)
  from selection_fixed_with_child [OF hs ht, of dict_backend False] hs ht hu cs ct
  show ?thesis by simp
qed

section \<open>Options of the drop-down form\<close>

text \<open>
  Whenever one of the fields \<open>memory\<close>, \<open>cpus\<close>, \<open>days\<close>, \<open>hours\<close>, \<open>minutes\<close> or \<open>options\<close>
  is missing from the form data, \<open>DropDownOptionsSpawner.options_from_form\<close> raises: element
  0 is taken of the default itself, an integer or the empty string.
\<close>

lemma DD_options_from_form_missing:
  assumes "k \<in> {''memory'', ''cpus'', ''days'', ''hours'', ''minutes'', ''options''}"
      and "formdata k = None"
  shows "\<exists>e. DD_options_from_form s formdata = Inl e"
proof -
  have "\<not> (\<exists>r. DD_options_from_form s formdata = Inr r)"
    using assms
    by (auto simp add: DD_options_from_form_def and_then_def form_get_def
        split: sum.splits option.splits)
  then show ?thesis by (cases "DD_options_from_form s formdata") auto
qed

text \<open>
  C8 says that \<open>options_from_form\<close> never fails on form data with missing keys and returns
  the default for every absent key. The code does not: on the empty form data the default
  configuration raises \<open>TypeError\<close> (\<open>self.default_mem[0]\<close> on the integer 2); with every
  field but \<open>memory\<close> submitted it raises \<open>TypeError\<close> too, and with every field but
  \<open>options\<close> submitted it raises \<open>IndexError\<close> (\<open>''[0]\<close>).
\<close>

theorem DD_options_from_form_missing_keys:
  "DD_options_from_form default_dropdown_spawner Map.empty = Inl TypeError \<and>
   DD_options_from_form default_dropdown_spawner
      [''partition'' \<mapsto> [''standard''], ''cpus'' \<mapsto> [''4''], ''days'' \<mapsto> [''1''],
       ''hours'' \<mapsto> [''2''], ''minutes'' \<mapsto> [''30''], ''options'' \<mapsto> [''--flag'']]
     = Inl TypeError \<and>
   DD_options_from_form default_dropdown_spawner
      [''partition'' \<mapsto> [''standard''], ''memory'' \<mapsto> [''8''], ''cpus'' \<mapsto> [''4''],
       ''days'' \<mapsto> [''1''], ''hours'' \<mapsto> [''2''], ''minutes'' \<mapsto> [''30'']]
     = Inl IndexError"
  by (simp add: DD_options_from_form_def default_dropdown_spawner_def partition_default_def
      and_then_def form_get_def)

text \<open>With all seven fields submitted the options are extracted one by one.\<close>

lemma DD_options_from_form_complete:
  "DD_options_from_form default_dropdown_spawner
      [''partition'' \<mapsto> [''standard''], ''memory'' \<mapsto> [''8''], ''cpus'' \<mapsto> [''4''],
       ''days'' \<mapsto> [''1''], ''hours'' \<mapsto> [''2''], ''minutes'' \<mapsto> [''30''],
       ''options'' \<mapsto> [''--flag'']] = Inr submitted_options"
  by (simp add: DD_options_from_form_def default_dropdown_spawner_def partition_default_def
      and_then_def form_get_def submitted_options_def)

section \<open>Configuration built by the drop-down spawner\<close>

text \<open>
  In the scope of the module \<open>construct_child\<close> raises \<open>NameError\<close> on every wrapper, at
  its first statement, and leaves the wrapper as it was.
\<close>

lemma DD_construct_child_raises:
  "DD_construct_child b s = (Inl (NameError ''SlurmSpawner''), s)"
  by (simp add: DD_construct_child_def DD_construct_child_in_def global_class_def
      module_classes_def)

text \<open>
  In a scope that binds \<open>SlurmSpawner\<close> the same body builds the configuration from the
  user options field by field: the rest of the method does what it is written for.
\<close>

lemma DD_construct_child_in_bound:
  assumes "scope ''SlurmSpawner'' = Some slurm"
      and "user_options s ''days'' = Some ''1''"
      and "user_options s ''hours'' = Some ''2''"
      and "user_options s ''minutes'' = Some ''30''"
      and "user_options s ''cpus'' = Some ''4''"
      and "user_options s ''memory'' = Some ''8''"
      and "user_options s ''partition'' = Some ''standard''"
      and "user_options s ''options'' = Some ''--flag''"
  shows "fst (DD_construct_child_in scope b s) = Inr () \<and>
         child_config (snd (DD_construct_child_in scope b s)) =
           (child_config s)(''req_queue'' \<mapsto> PStr ''standard'', ''req_memory'' \<mapsto> PStr ''8GB'',
              ''req_nprocs'' \<mapsto> PStr ''4'', ''req_runtime'' \<mapsto> PStr ''1-2:30:00'',
              ''req_options'' \<mapsto> PStr ''--flag'') \<and>
         child_class (snd (DD_construct_child_in scope b s)) = slurm"
  using assms
  by (simp add: DD_construct_child_in_def global_class_def W_construct_child_def dict_get_def
      Let_def split: option.splits)

text \<open>
  C9 says that, with the user options \<open>days = 1\<close>, \<open>hours = 2\<close>, \<open>minutes = 30\<close>,
  \<open>cpus = 4\<close>, \<open>memory = 8\<close>, \<open>partition = standard\<close> and \<open>options = --flag\<close>,
  \<open>construct_child\<close> of the DropDownOptionsSpawner produces a child configuration with
  \<open>req_runtime = 1-2:30:00\<close>, \<open>req_memory = 8GB\<close> and the other three fields. The code
  does not: with these user options it raises \<open>NameError\<close> for \<open>SlurmSpawner\<close>, no entry of
  \<open>child_config\<close> is written, \<open>child_class\<close> is unchanged and no child is constructed.
\<close>

theorem DD_construct_child_name_error:
  "user_options (default_dropdown_spawner\<lparr>user_options := submitted_options\<rparr>) ''days''
     = Some ''1'' \<and>
   user_options (default_dropdown_spawner\<lparr>user_options := submitted_options\<rparr>) ''memory''
     = Some ''8'' \<and>
   fst (DD_construct_child dict_backend
          (default_dropdown_spawner\<lparr>user_options := submitted_options\<rparr>))
     = Inl (NameError ''SlurmSpawner'') \<and>
   child_config (snd (DD_construct_child dict_backend
          (default_dropdown_spawner\<lparr>user_options := submitted_options\<rparr>))) ''req_runtime''
     = None \<and>
   child_config (snd (DD_construct_child dict_backend
          (default_dropdown_spawner\<lparr>user_options := submitted_options\<rparr>))) ''req_memory''
     = None \<and>
   child_class (snd (DD_construct_child dict_backend
          (default_dropdown_spawner\<lparr>user_options := submitted_options\<rparr>)))
     = LocalProcessSpawner \<and>
   child_spawner (snd (DD_construct_child dict_backend
          (default_dropdown_spawner\<lparr>user_options := submitted_options\<rparr>)))
     = None"
  by (simp add: DD_construct_child_def DD_construct_child_in_def global_class_def
      module_classes_def default_dropdown_spawner_def submitted_options_def)

section \<open>Options of the profile form\<close>

text \<open>
  C10: for a ProfilesSpawner (whose profile list is not empty), \<open>options_from_form\<close> fails
  with \<open>IndexError\<close> on form data in which the key \<open>profile\<close> maps to an empty list, while on
  form data without the key \<open>profile\<close> it succeeds and returns the key of the first profile.
\<close>

theorem P_options_from_form_empty_list:
  assumes "profiles s \<noteq> []"
  shows "(formdata ''profile'' = Some [] \<longrightarrow>
            P_options_from_form s formdata = Inl IndexError) \<and>
         (formdata ''profile'' = None \<longrightarrow>
            P_options_from_form s formdata = Inr [''profile'' \<mapsto> pkey (hd (profiles s))])"
  using assms by (cases "profiles s") (simp_all add: P_options_from_form_def dict_get_def)

theorem P_options_from_form_empty_list_witness:
  "profiles fresh_profiles_spawner \<noteq> [] \<and>
   [''profile'' \<mapsto> []] ''profile'' = Some [] \<and>
   P_options_from_form fresh_profiles_spawner [''profile'' \<mapsto> []] = Inl IndexError \<and>
   (Map.empty :: string \<rightharpoonup> string list) ''profile'' = None \<and>
   P_options_from_form fresh_profiles_spawner Map.empty = Inr [''profile'' \<mapsto> ''local'']"
proof -
  have h: "profiles fresh_profiles_spawner \<noteq> []"
    by (simp add: fresh_profiles_spawner_def example_profiles_def)
  have k: "pkey (hd (profiles fresh_profiles_spawner)) = ''local''"
    by (simp add: fresh_profiles_spawner_def example_profiles_def local_profile_def pkey_def)
  from P_options_from_form_empty_list [OF h, of "[''profile'' \<mapsto> []]"]
       P_options_from_form_empty_list [OF h, of Map.empty] h k
  show ?thesis by simp
qed

end
